theory Spec2Isabelle
  imports Main "HOL-Library.Word" "HOL-Library.Multiset" "HOL-Library.Sublist"
    "HOL-Library.Product_Lexorder"
begin

unbundle bit_operations_syntax

section \<open>Data model (main.go, lines 17-32)\<close>

text \<open>
  A \<open>time.Time\<close> is modelled by the instant it denotes, in nanoseconds since the zero
  \<open>time.Time\<close>, which is the instant 0. Go's \<open>int\<close> and SQLite's rowid are 64-bit
  two's complement integers, read with \<open>sint\<close>. A string is the list of its bytes.
\<close>

type_synonym timestamp = nat

definition zero_time :: timestamp where
  "zero_time = 0"

record Note =
  ID :: "64 word"
  Title :: string
  Content :: string
  CreatedAt :: timestamp
  LastModified :: timestamp

record Line =
  LineID :: "64 word"
  NoteID :: "64 word"
  LineContent :: string
  Timestamp :: timestamp

text \<open>The zero values that \<open>var note Note\<close> and \<open>var line Line\<close> declare.\<close>

definition zero_Note :: Note where
  "zero_Note = \<lparr>ID = 0, Title = [], Content = [], CreatedAt = zero_time, LastModified = zero_time\<rparr>"

definition zero_Line :: Line where
  "zero_Line = \<lparr>LineID = 0, NoteID = 0, LineContent = [], Timestamp = zero_time\<rparr>"

section \<open>Request bodies and \<open>json.Decoder.Decode\<close>\<close>

text \<open>
  A request body is either a byte sequence on which \<open>Decode\<close> returns an error
  (\<open>None\<close>), or a JSON object, given by the fields of the struct's JSON tags that it
  carries (a field that is absent or \<open>null\<close> is \<open>None\<close>). \<open>Decode\<close> writes the
  fields present into the zero-valued variable and leaves the others alone.
\<close>

record note_json =
  j_id :: "64 word option"
  j_title :: "string option"
  j_content :: "string option"
  j_created_at :: "timestamp option"
  j_last_modified :: "timestamp option"

record line_json =
  j_line_id :: "64 word option"
  j_note_id :: "64 word option"
  j_line_content :: "string option"
  j_timestamp :: "timestamp option"

datatype decode_error = SyntaxError

definition or_else :: "'a option \<Rightarrow> 'a \<Rightarrow> 'a" where
  "or_else v d = (case v of None \<Rightarrow> d | Some x \<Rightarrow> x)"

definition Decode_Note :: "note_json option \<Rightarrow> Note \<Rightarrow> decode_error + Note" where
  "Decode_Note body note =
     (case body of
        None \<Rightarrow> Inl SyntaxError
      | Some j \<Rightarrow> Inr \<lparr>ID = or_else (j_id j) (ID note),
                       Title = or_else (j_title j) (Title note),
                       Content = or_else (j_content j) (Content note),
                       CreatedAt = or_else (j_created_at j) (CreatedAt note),
                       LastModified = or_else (j_last_modified j) (LastModified note)\<rparr>)"

definition Decode_Line :: "line_json option \<Rightarrow> Line \<Rightarrow> decode_error + Line" where
  "Decode_Line body line =
     (case body of
        None \<Rightarrow> Inl SyntaxError
      | Some j \<Rightarrow> Inr \<lparr>LineID = or_else (j_line_id j) (LineID line),
                       NoteID = or_else (j_note_id j) (NoteID line),
                       LineContent = or_else (j_line_content j) (LineContent line),
                       Timestamp = or_else (j_timestamp j) (Timestamp line)\<rparr>)"

section \<open>Responses (main.go, lines 357-368)\<close>

datatype payload =
    JNote Note
  | JNotes "Note list"
  | JLine Line
  | JLines "Line list"
  | JMap "(string \<times> string) list"

record response =
  status :: nat
  payload :: payload

definition StatusOK :: nat where "StatusOK = 200"
definition StatusCreated :: nat where "StatusCreated = 201"
definition StatusBadRequest :: nat where "StatusBadRequest = 400"
definition StatusNotFound :: nat where "StatusNotFound = 404"
definition StatusInternalServerError :: nat where "StatusInternalServerError = 500"

definition respondWithJSON :: "nat \<Rightarrow> payload \<Rightarrow> response" where
  "respondWithJSON code p = \<lparr>status = code, payload = p\<rparr>"

definition respondWithError :: "nat \<Rightarrow> string \<Rightarrow> response" where
  "respondWithError code message = respondWithJSON code (JMap [(''error'', message)])"

section \<open>Path parameters (main.go, lines 94-100 and 371-375)\<close>

text \<open>
  The routes constrain \<open>{id}\<close> to \<open>[0-9]+\<close>, so the path parameter is a non-empty
  string of decimal digits; it is modelled by the natural number it denotes.
  \<open>parseInt\<close> scans it with \<open>%d\<close> into an \<open>int\<close> that starts at 0 and ignores the
  error of \<open>Sscanf\<close>: a number beyond the 64-bit range leaves the 0.
\<close>

definition MAX_ROWID :: int where
  "MAX_ROWID = 9223372036854775807"

definition parseInt :: "nat \<Rightarrow> 64 word" where
  "parseInt s = (if int s \<le> MAX_ROWID then word_of_nat s else 0)"

section \<open>The store: the two tables of the schema and the statements the handlers run\<close>

text \<open>
  The connection \<open>s.db\<close> is modelled by the contents of the tables \<open>notes\<close> and
  \<open>lines\<close> (rows in insertion order), the \<open>sqlite_sequence\<close> counters that
  \<open>AUTOINCREMENT\<close> keeps for them, and the connection's \<open>foreign_keys\<close> setting,
  which decides whether the \<open>FOREIGN KEY ... ON DELETE CASCADE\<close> clause of \<open>lines\<close>
  is enforced. Rows hold what the program's own INSERT statements bind, so no column is
  NULL. Statements fail for the reasons the engine itself has (a row not found, the rowid
  space exhausted, a foreign key violated); failures of the machine (disk, locks) are not
  modelled. The store is one value: what a handler does to it happens in one step.
\<close>

record DB =
  notes_table :: "Note list"
  lines_table :: "Line list"
  notes_seq :: "64 word"
  lines_seq :: "64 word"
  foreign_keys :: bool

datatype db_error = ErrNoRows | ErrFull | ErrForeignKey | ErrLikePattern

fun Error :: "db_error \<Rightarrow> string" where
  "Error ErrNoRows = ''sql: no rows in result set''"
| "Error ErrFull = ''database or disk is full''"
| "Error ErrForeignKey = ''FOREIGN KEY constraint failed''"
| "Error ErrLikePattern = ''LIKE or GLOB pattern too complex''"

record sql_result =
  lastInsertId :: "64 word"
  rowsAffected :: nat

definition LastInsertId :: "sql_result \<Rightarrow> db_error + 64 word" where
  "LastInsertId r = Inr (lastInsertId r)"

text \<open>
  \<open>sql.Open("sqlite3", dbPath)\<close> followed by \<open>CREATE TABLE IF NOT EXISTS\<close> on a new
  database file: empty tables. The parameter is the \<open>foreign_keys\<close> setting the
  connection gets. The program never issues \<open>PRAGMA foreign_keys\<close>, and neither its
  default path \<open>./notetime.db\<close> nor the Dockerfile's \<open>/app/data/notetime.db\<close> carries
  a \<open>_foreign_keys\<close> option, so with these the engine's default applies, which is off.
\<close>

definition Initialize :: "bool \<Rightarrow> DB" where
  "Initialize fk = \<lparr>notes_table = [], lines_table = [], notes_seq = 0, lines_seq = 0, foreign_keys = fk\<rparr>"

text \<open>
  \<open>WHERE id = ?\<close> with the path parameter bound as text: the column's integer
  affinity converts the digits to a number, which equals a rowid or does not.
\<close>

definition id_eq :: "64 word \<Rightarrow> nat \<Rightarrow> bool" where
  "id_eq w s = (sint w = int s)"

text \<open>
  The rowid of a new row of an \<open>AUTOINCREMENT\<close> table: one more than the largest
  rowid the table holds or ever held; \<open>SQLITE_FULL\<close> when that is the largest rowid
  there is.
\<close>

definition rowids_exhausted :: "64 word list \<Rightarrow> 64 word \<Rightarrow> bool" where
  "rowids_exhausted ids seq = (sint seq = MAX_ROWID \<or> (\<exists>i \<in> set ids. sint i = MAX_ROWID))"

definition NewRowid :: "64 word list \<Rightarrow> 64 word \<Rightarrow> db_error + 64 word" where
  "NewRowid ids seq =
     (if rowids_exhausted ids seq then Inl ErrFull
      else Inr (word_of_int
        (max (if ids = [] then 1 else Max (set (map sint ids)) + 1) (sint seq + 1))))"

text \<open>
  How a \<open>time.Time\<close> is stored and ordered. The driver binds it as the text of the
  layout \<open>2006-01-02 15:04:05.999999999-07:00\<close>: the wall-clock time of the value's
  zone, then the offset of that zone. A \<open>TIMESTAMP\<close> column keeps the text, and
  \<open>ORDER BY\<close> compares texts byte by byte. Every timestamp the handlers store comes
  from \<open>time.Now()\<close>, whose zone is the server's local zone: \<open>zone t\<close> is the offset
  of that zone from UTC, in seconds, at the instant \<open>t\<close>. For years of four digits, two
  such texts compare as their wall-clock times (in nanoseconds) do, then as the signs of
  the printed offsets (\<open>+\<close> before \<open>-\<close>), then as the hours and minutes printed.
\<close>

type_synonym stored_time = "int \<times> nat \<times> nat"

definition stored_time :: "(timestamp \<Rightarrow> int) \<Rightarrow> timestamp \<Rightarrow> stored_time" where
  "stored_time zone t =
     (int t + zone t * 1000000000, (if zone t \<le> - 60 then 1 else 0), nat \<bar>zone t\<bar> div 60)"

text \<open>
  \<open>ORDER BY k DESC\<close> and \<open>ORDER BY k ASC\<close> on a timestamp column \<open>k\<close>: rows are
  ordered by the stored texts, and rows with the same text stay in the order of the
  table.
\<close>

definition order_by_desc ::
  "(timestamp \<Rightarrow> int) \<Rightarrow> ('a \<Rightarrow> timestamp) \<Rightarrow> 'a list \<Rightarrow> 'a list" where
  "order_by_desc zone k rows = rev (sort_key (\<lambda>r. stored_time zone (k r)) (rev rows))"

definition order_by_asc ::
  "(timestamp \<Rightarrow> int) \<Rightarrow> ('a \<Rightarrow> timestamp) \<Rightarrow> 'a list \<Rightarrow> 'a list" where
  "order_by_asc zone k rows = sort_key (\<lambda>r. stored_time zone (k r)) rows"

text \<open>
  \<open>x LIKE p\<close> as SQLite evaluates it without an ESCAPE clause. A pattern of more than
  50000 bytes is an error. Otherwise value and pattern are read as C strings, up to their
  first NUL byte, and character by character: a byte below \<open>0xC0\<close> is a character by
  itself, a byte from \<open>0xC0\<close> on takes the continuation bytes (\<open>0x80\<close> to \<open>0xBF\<close>)
  that follow it into one character (\<open>sqlite3Utf8Read\<close>). In the pattern \<open>%\<close> stands
  for any run of characters, \<open>_\<close> for any one character, and every other character for
  itself, upper and lower case ASCII letters being equal.
\<close>

definition SQLITE_MAX_LIKE_PATTERN_LENGTH :: nat where
  "SQLITE_MAX_LIKE_PATTERN_LENGTH = 50000"

definition c_str :: "string \<Rightarrow> string" where
  "c_str s = takeWhile (\<lambda>b. b \<noteq> CHR 0x00) s"

definition is_continuation :: "char \<Rightarrow> bool" where
  "is_continuation b = (128 \<le> (of_char b :: nat) \<and> (of_char b :: nat) < 192)"

definition sqlite3Utf8Trans1 :: "32 word list" where
  "sqlite3Utf8Trans1 =
     [0x00, 0x01, 0x02, 0x03, 0x04, 0x05, 0x06, 0x07,
      0x08, 0x09, 0x0a, 0x0b, 0x0c, 0x0d, 0x0e, 0x0f,
      0x10, 0x11, 0x12, 0x13, 0x14, 0x15, 0x16, 0x17,
      0x18, 0x19, 0x1a, 0x1b, 0x1c, 0x1d, 0x1e, 0x1f,
      0x00, 0x01, 0x02, 0x03, 0x04, 0x05, 0x06, 0x07,
      0x08, 0x09, 0x0a, 0x0b, 0x0c, 0x0d, 0x0e, 0x0f,
      0x00, 0x01, 0x02, 0x03, 0x04, 0x05, 0x06, 0x07,
      0x00, 0x01, 0x02, 0x03, 0x00, 0x01, 0x00, 0x00]"

text \<open>
  The character that a lead byte \<open>b\<close> (from \<open>0xC0\<close> on) and the continuation bytes
  after it make, in 32-bit arithmetic; what is not a character (below \<open>0x80\<close>, a
  surrogate, \<open>0xFFFE\<close>, \<open>0xFFFF\<close>) becomes \<open>0xFFFD\<close>.
\<close>

definition multibyte :: "char \<Rightarrow> string \<Rightarrow> nat" where
  "multibyte b cont =
     (let c = fold (\<lambda>x c. push_bit 6 c + (word_of_nat (of_char x) AND 0x3f)) cont
                (sqlite3Utf8Trans1 ! ((of_char b :: nat) - 192))
      in if c < 0x80 \<or> c AND 0xFFFFF800 = 0xD800 \<or> c AND 0xFFFFFFFE = 0xFFFE
         then 0xFFFD else unat c)"

function utf8_chars :: "string \<Rightarrow> nat list" where
  "utf8_chars [] = []"
| "utf8_chars (b # bs) =
     (if (of_char b :: nat) < 192 then of_char b # utf8_chars bs
      else multibyte b (takeWhile is_continuation bs) #
           utf8_chars (dropWhile is_continuation bs))"
  by pat_completeness auto
termination
  by (relation "measure length") (auto simp: length_dropWhile_le less_Suc_eq_le)

definition sqlite3Tolower :: "nat \<Rightarrow> nat" where
  "sqlite3Tolower c = (if 65 \<le> c \<and> c \<le> 90 then c + 32 else c)"

definition matchAll :: nat where "matchAll = 37"
definition matchOne :: nat where "matchOne = 95"

fun patternCompare :: "nat list \<Rightarrow> nat list \<Rightarrow> bool" where
  "patternCompare [] [] = True"
| "patternCompare [] (c # cs) = False"
| "patternCompare (p # ps) [] = (p = matchAll \<and> patternCompare ps [])"
| "patternCompare (p # ps) (c # cs) =
     (if p = matchAll then patternCompare ps (c # cs) \<or> patternCompare (p # ps) cs
      else (p = matchOne \<or> sqlite3Tolower p = sqlite3Tolower c) \<and> patternCompare ps cs)"

definition like :: "string \<Rightarrow> string \<Rightarrow> db_error + bool" where
  "like x p =
     (if length p > SQLITE_MAX_LIKE_PATTERN_LENGTH then Inl ErrLikePattern
      else Inr (patternCompare (utf8_chars (c_str p)) (utf8_chars (c_str x))))"

text \<open>
  What \<open>db.Query\<close> returns: the rows that \<open>rows.Next()\<close> and \<open>rows.Scan\<close> deliver,
  and the error that stopped the iteration, which only \<open>rows.Err()\<close> tells.
\<close>

record 'a Rows =
  delivered :: "'a list"
  Err :: "db_error option"

text \<open>
  A scan of a table under a \<open>WHERE\<close> clause: the rows for which the clause is true, or
  the error of the first row on which its evaluation fails.
\<close>

fun scan_where :: "('a \<Rightarrow> db_error + bool) \<Rightarrow> 'a list \<Rightarrow> db_error + 'a list" where
  "scan_where P [] = Inr []"
| "scan_where P (r # rs) =
     (case P r of
        Inl e \<Rightarrow> Inl e
      | Inr b \<Rightarrow>
          (case scan_where P rs of
             Inl e \<Rightarrow> Inl e
           | Inr xs \<Rightarrow> Inr (if b then r # xs else xs)))"

subsection \<open>The statements\<close>

text \<open>\<open>SELECT id, title, content, created_at, last_modified FROM notes ORDER BY ... DESC\<close>\<close>

definition select_notes ::
  "(timestamp \<Rightarrow> int) \<Rightarrow> DB \<Rightarrow> (Note \<Rightarrow> timestamp) \<Rightarrow> db_error + Note list" where
  "select_notes zone db k = Inr (order_by_desc zone k (notes_table db))"

text \<open>\<open>SELECT ... FROM notes WHERE id = ?\<close>, read with \<open>QueryRow(...).Scan\<close>\<close>

definition select_note :: "DB \<Rightarrow> nat \<Rightarrow> db_error + Note" where
  "select_note db s =
     (case find (\<lambda>r. id_eq (ID r) s) (notes_table db) of
        None \<Rightarrow> Inl ErrNoRows
      | Some r \<Rightarrow> Inr r)"

text \<open>\<open>INSERT INTO notes(title, content, created_at, last_modified) VALUES(?, ?, ?, ?)\<close>\<close>

definition insert_note ::
  "DB \<Rightarrow> string \<Rightarrow> string \<Rightarrow> timestamp \<Rightarrow> timestamp \<Rightarrow> db_error + (sql_result \<times> DB)" where
  "insert_note db t c ca lm =
     (case NewRowid (map ID (notes_table db)) (notes_seq db) of
        Inl e \<Rightarrow> Inl e
      | Inr rowid \<Rightarrow>
          Inr (\<lparr>lastInsertId = rowid, rowsAffected = 1\<rparr>,
               db\<lparr>notes_table := notes_table db @
                      [\<lparr>ID = rowid, Title = t, Content = c, CreatedAt = ca, LastModified = lm\<rparr>],
                    notes_seq := rowid\<rparr>))"

text \<open>\<open>UPDATE notes SET title = ?, content = ?, last_modified = ? WHERE id = ?\<close>\<close>

definition update_note ::
  "DB \<Rightarrow> string \<Rightarrow> string \<Rightarrow> timestamp \<Rightarrow> nat \<Rightarrow> db_error + (sql_result \<times> DB)" where
  "update_note db t c lm s =
     Inr (\<lparr>lastInsertId = 0, rowsAffected = length (filter (\<lambda>r. id_eq (ID r) s) (notes_table db))\<rparr>,
          db\<lparr>notes_table := map (\<lambda>r. if id_eq (ID r) s
                                then r\<lparr>Title := t, Content := c, LastModified := lm\<rparr>
                                else r) (notes_table db)\<rparr>)"

text \<open>\<open>UPDATE notes SET last_modified = ? WHERE id = ?\<close>\<close>

definition update_last_modified ::
  "DB \<Rightarrow> timestamp \<Rightarrow> nat \<Rightarrow> db_error + (sql_result \<times> DB)" where
  "update_last_modified db lm s =
     Inr (\<lparr>lastInsertId = 0, rowsAffected = length (filter (\<lambda>r. id_eq (ID r) s) (notes_table db))\<rparr>,
          db\<lparr>notes_table := map (\<lambda>r. if id_eq (ID r) s then r\<lparr>LastModified := lm\<rparr> else r)
                          (notes_table db)\<rparr>)"

text \<open>
  \<open>DELETE FROM notes WHERE id = ?\<close>. The lines of a deleted note go with it only when
  the connection enforces foreign keys.
\<close>

definition delete_note :: "DB \<Rightarrow> nat \<Rightarrow> db_error + (sql_result \<times> DB)" where
  "delete_note db s =
     Inr (\<lparr>lastInsertId = 0, rowsAffected = length (filter (\<lambda>r. id_eq (ID r) s) (notes_table db))\<rparr>,
          db\<lparr>notes_table := filter (\<lambda>r. \<not> id_eq (ID r) s) (notes_table db),
             lines_table := (if foreign_keys db
                       then filter (\<lambda>l. NoteID l \<notin>
                                set (map ID (filter (\<lambda>r. id_eq (ID r) s) (notes_table db))))
                              (lines_table db)
                       else lines_table db)\<rparr>)"

text \<open>\<open>SELECT id, note_id, content, timestamp FROM lines WHERE note_id = ? ORDER BY timestamp ASC\<close>\<close>

definition select_lines :: "(timestamp \<Rightarrow> int) \<Rightarrow> DB \<Rightarrow> nat \<Rightarrow> db_error + Line list" where
  "select_lines zone db s =
     Inr (order_by_asc zone Timestamp (filter (\<lambda>l. id_eq (NoteID l) s) (lines_table db)))"

text \<open>
  \<open>INSERT INTO lines(note_id, content, timestamp) VALUES(?, ?, ?)\<close>. A connection
  that enforces foreign keys refuses a \<open>note_id\<close> that no note has.
\<close>

definition insert_line ::
  "DB \<Rightarrow> 64 word \<Rightarrow> string \<Rightarrow> timestamp \<Rightarrow> db_error + (sql_result \<times> DB)" where
  "insert_line db nid c ts =
     (case NewRowid (map LineID (lines_table db)) (lines_seq db) of
        Inl e \<Rightarrow> Inl e
      | Inr rowid \<Rightarrow>
          if foreign_keys db \<and> nid \<notin> set (map ID (notes_table db)) then Inl ErrForeignKey
          else Inr (\<lparr>lastInsertId = rowid, rowsAffected = 1\<rparr>,
                    db\<lparr>lines_table := lines_table db @
                           [\<lparr>LineID = rowid, NoteID = nid, LineContent = c, Timestamp = ts\<rparr>],
                         lines_seq := rowid\<rparr>))"

text \<open>
  \<open>SELECT ... FROM notes WHERE title LIKE ? OR content LIKE ? ORDER BY last_modified DESC\<close>.
  The rows are sorted before the first is delivered, so when \<open>LIKE\<close> fails on a row
  none is delivered.
\<close>

definition search_where :: "string \<Rightarrow> string \<Rightarrow> Note \<Rightarrow> db_error + bool" where
  "search_where p1 p2 r =
     (case like (Title r) p1 of
        Inl e \<Rightarrow> Inl e
      | Inr b \<Rightarrow> if b then Inr True else like (Content r) p2)"

definition search_notes ::
  "(timestamp \<Rightarrow> int) \<Rightarrow> DB \<Rightarrow> string \<Rightarrow> string \<Rightarrow> db_error + Note Rows" where
  "search_notes zone db p1 p2 =
     Inr (case scan_where (search_where p1 p2) (notes_table db) of
            Inl e \<Rightarrow> \<lparr>delivered = [], Err = Some e\<rparr>
          | Inr xs \<Rightarrow> \<lparr>delivered = order_by_desc zone LastModified xs, Err = None\<rparr>)"

section \<open>The handlers (main.go, lines 125-353)\<close>

text \<open>
  A handler takes the store and the parts of the request it reads (the path parameter,
  a query parameter, which is the empty string when missing, the body) and, where it calls
  \<open>time.Now()\<close>, the time that call returns; a handler that lists rows in the order
  of a timestamp column also takes the server's \<open>zone\<close>. It gives the response and the
  store it leaves.
\<close>

definition getAllNotes :: "(timestamp \<Rightarrow> int) \<Rightarrow> DB \<Rightarrow> string \<Rightarrow> response \<times> DB" where
  "getAllNotes zone db sortParam =
     (let sortBy = (if sortParam = [] then ''last_modified'' else sortParam);
          sortKey = (if sortBy = ''creation_date'' then CreatedAt else LastModified)
      in case select_notes zone db sortKey of
           Inl err \<Rightarrow> (respondWithError StatusInternalServerError (Error err), db)
         | Inr ns \<Rightarrow> (respondWithJSON StatusOK (JNotes ns), db))"

definition getNote :: "DB \<Rightarrow> nat \<Rightarrow> response \<times> DB" where
  "getNote db idv =
     (case select_note db idv of
        Inl err \<Rightarrow>
          (if err = ErrNoRows then (respondWithError StatusNotFound ''Note not found'', db)
           else (respondWithError StatusInternalServerError (Error err), db))
      | Inr note \<Rightarrow> (respondWithJSON StatusOK (JNote note), db))"

definition createNote :: "timestamp \<Rightarrow> DB \<Rightarrow> note_json option \<Rightarrow> response \<times> DB" where
  "createNote now db body =
     (case Decode_Note body zero_Note of
        Inl err \<Rightarrow> (respondWithError StatusBadRequest ''Invalid request payload'', db)
      | Inr note0 \<Rightarrow>
          (let note1 = note0\<lparr>CreatedAt := now, LastModified := now\<rparr>;
               note2 = (if Title note1 = [] then note1\<lparr>Title := ''Untitled Diary''\<rparr> else note1)
           in (case insert_note db (Title note2) (Content note2) (CreatedAt note2)
                      (LastModified note2) of
                 Inl err \<Rightarrow> (respondWithError StatusInternalServerError (Error err), db)
               | Inr (result, db') \<Rightarrow>
                   (case LastInsertId result of
                      Inl err \<Rightarrow> (respondWithError StatusInternalServerError (Error err), db')
                    | Inr rowid \<Rightarrow>
                        (respondWithJSON StatusCreated (JNote (note2\<lparr>ID := rowid\<rparr>)), db')))))"

definition updateNote :: "timestamp \<Rightarrow> DB \<Rightarrow> nat \<Rightarrow> note_json option \<Rightarrow> response \<times> DB" where
  "updateNote now db idv body =
     (case Decode_Note body zero_Note of
        Inl err \<Rightarrow> (respondWithError StatusBadRequest ''Invalid request payload'', db)
      | Inr note0 \<Rightarrow>
          (let note1 = note0\<lparr>LastModified := now\<rparr>
           in (case update_note db (Title note1) (Content note1) (LastModified note1) idv of
                 Inl err \<Rightarrow> (respondWithError StatusInternalServerError (Error err), db)
               | Inr (result, db') \<Rightarrow>
                   (respondWithJSON StatusOK (JNote (note1\<lparr>ID := parseInt idv\<rparr>)), db'))))"

definition deleteNote :: "DB \<Rightarrow> nat \<Rightarrow> response \<times> DB" where
  "deleteNote db idv =
     (case delete_note db idv of
        Inl err \<Rightarrow> (respondWithError StatusInternalServerError (Error err), db)
      | Inr (result, db') \<Rightarrow>
          (respondWithJSON StatusOK (JMap [(''message'', ''Note deleted successfully'')]), db'))"

definition getLines :: "(timestamp \<Rightarrow> int) \<Rightarrow> DB \<Rightarrow> nat \<Rightarrow> response \<times> DB" where
  "getLines zone db noteID =
     (case select_lines zone db noteID of
        Inl err \<Rightarrow> (respondWithError StatusInternalServerError (Error err), db)
      | Inr ls \<Rightarrow> (respondWithJSON StatusOK (JLines ls), db))"

definition addLine :: "timestamp \<Rightarrow> DB \<Rightarrow> nat \<Rightarrow> line_json option \<Rightarrow> response \<times> DB" where
  "addLine now db noteID body =
     (case Decode_Line body zero_Line of
        Inl err \<Rightarrow> (respondWithError StatusBadRequest ''Invalid request payload'', db)
      | Inr line0 \<Rightarrow>
          (let line1 = line0\<lparr>Timestamp := now, NoteID := parseInt noteID\<rparr>
           in (case insert_line db (NoteID line1) (LineContent line1) (Timestamp line1) of
                 Inl err \<Rightarrow> (respondWithError StatusInternalServerError (Error err), db)
               | Inr (result, db1) \<Rightarrow>
                   (case LastInsertId result of
                      Inl err \<Rightarrow> (respondWithError StatusInternalServerError (Error err), db1)
                    | Inr rowid \<Rightarrow>
                        (let line2 = line1\<lparr>LineID := rowid\<rparr>
                         in (case update_last_modified db1 (Timestamp line2) noteID of
                               Inl err \<Rightarrow>
                                 (respondWithError StatusInternalServerError (Error err), db1)
                             | Inr (result2, db2) \<Rightarrow>
                                 (respondWithJSON StatusCreated (JLine line2), db2)))))))"

text \<open>
  \<open>searchNotes\<close> appends the rows that \<open>rows.Next()\<close> delivers and never reads
  \<open>rows.Err()\<close>.
\<close>

definition searchNotes :: "(timestamp \<Rightarrow> int) \<Rightarrow> DB \<Rightarrow> string \<Rightarrow> response \<times> DB" where
  "searchNotes zone db q =
     (if q = [] then (respondWithError StatusBadRequest ''Search query is required'', db)
      else case search_notes zone db (''%'' @ q @ ''%'') (''%'' @ q @ ''%'') of
             Inl err \<Rightarrow> (respondWithError StatusInternalServerError (Error err), db)
           | Inr rows \<Rightarrow> (respondWithJSON StatusOK (JNotes (delivered rows)), db))"

section \<open>Routing and the states the server can reach (main.go, lines 85-107)\<close>

text \<open>
  The API routes of \<open>setupRoutes\<close>: a request is a method and path with its parameters
  and body, and the router hands it to the handler bound to it. (Every other path goes to
  the file server, which does not touch the store.)
\<close>

datatype request =
    GET_health
  | GET_notes string
  | POST_notes "note_json option"
  | GET_note nat
  | PUT_note nat "note_json option"
  | DELETE_note nat
  | GET_lines nat
  | POST_lines nat "line_json option"
  | GET_search string

fun route :: "(timestamp \<Rightarrow> int) \<Rightarrow> timestamp \<Rightarrow> DB \<Rightarrow> request \<Rightarrow> response \<times> DB" where
  "route zone now db GET_health =
     (respondWithJSON StatusOK (JMap [(''status'', ''healthy'')]), db)"
| "route zone now db (GET_notes sortParam) = getAllNotes zone db sortParam"
| "route zone now db (POST_notes body) = createNote now db body"
| "route zone now db (GET_note idv) = getNote db idv"
| "route zone now db (PUT_note idv body) = updateNote now db idv body"
| "route zone now db (DELETE_note idv) = deleteNote db idv"
| "route zone now db (GET_lines idv) = getLines zone db idv"
| "route zone now db (POST_lines idv body) = addLine now db idv body"
| "route zone now db (GET_search q) = searchNotes zone db q"

text \<open>
  \<open>reachable_sequentially t db\<close>: the server, started on a new database and serving its
  requests one at a time, each handler done before the next reads the clock, can be in
  store state \<open>db\<close> with its clock last read at \<open>t\<close>. The clock is monotonic: a
  request is served at a time not earlier than the one before it.
\<close>

inductive reachable_sequentially :: "timestamp \<Rightarrow> DB \<Rightarrow> bool" where
  start: "reachable_sequentially t (Initialize fk)"
| serve: "reachable_sequentially t db \<Longrightarrow> t \<le> now \<Longrightarrow>
     reachable_sequentially now (snd (route zone now db req))"

text \<open>
  \<open>reachable_concurrently t0 t db\<close>: the server, started at time \<open>t0\<close> on a new
  database, can be in store state \<open>db\<close> when its clock reads \<open>t\<close>. The server runs
  its handlers concurrently: a handler reads \<open>time.Now()\<close> when it starts, and its
  statements reach the store at some later time \<open>t'\<close>, possibly after those of handlers
  that started after it. The clock is monotonic. (The statements of one handler are kept
  together here; letting them part only adds states.)
\<close>

inductive reachable_concurrently :: "timestamp \<Rightarrow> timestamp \<Rightarrow> DB \<Rightarrow> bool" where
  start: "reachable_concurrently t0 t0 (Initialize fk)"
| serve: "reachable_concurrently t0 t db \<Longrightarrow> t \<le> t' \<Longrightarrow> t0 \<le> now \<Longrightarrow> now \<le> t' \<Longrightarrow>
     reachable_concurrently t0 t' (snd (route zone now db req))"

text \<open>
  What the two invariants of the data model say of a store: every note was last modified
  no earlier than it was created (and no later than the clock reads), and every line
  belongs to a note of the store.
\<close>

definition notes_inv :: "timestamp \<Rightarrow> DB \<Rightarrow> bool" where
  "notes_inv t db =
     list_all (\<lambda>n. CreatedAt n \<le> LastModified n \<and> LastModified n \<le> t) (notes_table db)"

definition lines_inv :: "DB \<Rightarrow> bool" where
  "lines_inv db = list_all (\<lambda>l. NoteID l \<in> set (map ID (notes_table db))) (lines_table db)"


section \<open>Example inputs\<close>

text \<open>
  The store after \<open>POST /api/notes {"title":"X","content":"Y"}\<close> at time 10 on a new
  database, and the bodies \<open>{"title":"X","content":"Y"}\<close> and \<open>{"content":"hi"}\<close>.
\<close>

definition example_db :: DB where
  "example_db = \<lparr>notes_table = [\<lparr>ID = 1, Title = ''X'', Content = ''Y'', CreatedAt = 10,
        LastModified = 10\<rparr>], lines_table = [], notes_seq = 1, lines_seq = 0,
      foreign_keys = False\<rparr>"

definition example_body :: note_json where
  "example_body = \<lparr>j_id = None, j_title = Some ''X'', j_content = Some ''Y'',
      j_created_at = None, j_last_modified = None\<rparr>"

definition example_line_body :: line_json where
  "example_line_body = \<lparr>j_line_id = None, j_note_id = None, j_line_content = Some ''hi'',
      j_timestamp = None\<rparr>"


text \<open>
  The server's zone when it runs in UTC, and a zone whose offset falls from 0 to one hour
  west of UTC at the instant of 6 seconds (a change of the local zone's offset).
\<close>

definition utc :: "timestamp \<Rightarrow> int" where
  "utc t = 0"

definition zone_change :: "timestamp \<Rightarrow> int" where
  "zone_change t = (if t < 6000000000 then 0 else - 3600)"

text \<open>
  The store after two notes \<open>{"title":"X","content":"Y"}\<close> are created on a new
  database, one at 5 seconds and one at 6 seconds.
\<close>

definition two_notes_db :: DB where
  "two_notes_db =
     \<lparr>notes_table =
        [\<lparr>ID = 1, Title = ''X'', Content = ''Y'', CreatedAt = 5000000000,
          LastModified = 5000000000\<rparr>,
         \<lparr>ID = 2, Title = ''X'', Content = ''Y'', CreatedAt = 6000000000,
          LastModified = 6000000000\<rparr>],
      lines_table = [], notes_seq = 2, lines_seq = 0, foreign_keys = False\<rparr>"

text \<open>
  The store after \<open>POST /api/notes\<close> is served with the clock read at 6 and then the
  \<open>UPDATE\<close> of a \<open>PUT /api/notes/1\<close> runs whose handler had read the clock at 5.
\<close>

definition stale_db :: DB where
  "stale_db =
     \<lparr>notes_table = [\<lparr>ID = 1, Title = ''X'', Content = ''Y'', CreatedAt = 6, LastModified = 5\<rparr>],
      lines_table = [], notes_seq = 1, lines_seq = 0, foreign_keys = False\<rparr>"




section \<open>Facts about the store\<close>

lemmas status_defs = StatusOK_def StatusCreated_def StatusBadRequest_def StatusNotFound_def
  StatusInternalServerError_def

lemmas respond_defs = respondWithJSON_def respondWithError_def

lemma map_no_match: "\<not> (\<exists>r \<in> set xs. P r) \<Longrightarrow> map (\<lambda>r. if P r then f r else r) xs = xs"
  by (induction xs) auto

lemma find_Some_mem: "find P xs = Some x \<Longrightarrow> x \<in> set xs \<and> P x"
  by (induction xs) (auto split: if_splits)

lemma order_by_desc_mset: "mset (order_by_desc zone k rows) = mset rows"
  by (simp add: order_by_desc_def)

lemma order_by_desc_stored:
  "sorted_wrt (\<lambda>a b. stored_time zone (k b) \<le> stored_time zone (k a)) (order_by_desc zone k rows)"
proof -
  let ?f = "\<lambda>r. stored_time zone (k r)"
  have "sorted (map ?f (sort_key ?f (rev rows)))" by simp
  then have "sorted_wrt (\<lambda>a b. ?f a \<le> ?f b) (sort_key ?f (rev rows))"
    by (simp add: sorted_map)
  then show ?thesis
    by (simp add: order_by_desc_def sorted_wrt_rev)
qed

lemma stored_time_le: "zone t = zone t' \<Longrightarrow> (stored_time zone t \<le> stored_time zone t') = (t \<le> t')"
  by (auto simp: stored_time_def)

lemma order_by_desc_sorted:
  assumes "\<forall>r \<in> set rows. zone (k r) = z"
  shows "sorted_wrt (\<lambda>a b. k b \<le> k a) (order_by_desc zone k rows)"
proof (rule sorted_wrt_mono_rel [OF _ order_by_desc_stored [of zone k rows]])
  fix a b
  assume "a \<in> set (order_by_desc zone k rows)" "b \<in> set (order_by_desc zone k rows)"
  then have "a \<in> set rows" "b \<in> set rows" by (simp_all add: order_by_desc_def)
  with assms have "zone (k b) = zone (k a)" by simp
  moreover assume "stored_time zone (k b) \<le> stored_time zone (k a)"
  ultimately show "k b \<le> k a" by (simp add: stored_time_le)
qed

lemma sint_in_range:
  "- 9223372036854775808 \<le> k \<Longrightarrow> k \<le> MAX_ROWID \<Longrightarrow> sint (word_of_int k :: 64 word) = k"
  by (simp add: MAX_ROWID_def signed_of_int signed_take_bit_int_eq_self)

lemma sint_le_MAX: "sint (w :: 64 word) \<le> MAX_ROWID"
  using sint_lt [of w] by (simp add: MAX_ROWID_def)

lemma sint_ge_MIN: "- 9223372036854775808 \<le> sint (w :: 64 word)"
  using sint_ge [of w] by simp

lemma id_eq_parseInt:
  assumes "id_eq w s"
  shows "parseInt s = w"
proof -
  from assms have eq: "int s = sint w" by (simp add: id_eq_def)
  have "word_of_nat s = (word_of_int (int s) :: 64 word)" by simp
  also have "\<dots> = word_of_int (sint w)" by (simp only: eq)
  also have "\<dots> = w" by simp
  finally have "word_of_nat s = w" .
  moreover have "int s \<le> MAX_ROWID" using sint_le_MAX [of w] eq by simp
  ultimately show ?thesis by (simp add: parseInt_def)
qed

lemma NewRowid_fresh:
  assumes "NewRowid ids seq = Inr r"
  shows "r \<notin> set ids"
proof
  assume mem: "r \<in> set ids"
  then have ne: "ids \<noteq> []" by auto
  from assms have nofull: "\<not> rowids_exhausted ids seq"
    and r: "r = word_of_int (max (Max (set (map sint ids)) + 1) (sint seq + 1))"
    using ne by (auto simp: NewRowid_def split: if_splits)
  let ?m = "Max (set (map sint ids))"
  have "?m \<in> set (map sint ids)"
    using ne by (intro Max_in) auto
  then obtain i where i: "i \<in> set ids" "sint i = ?m" by auto
  with nofull have "?m \<noteq> MAX_ROWID" by (auto simp: rowids_exhausted_def)
  with sint_le_MAX [of i] i have m_lt: "?m < MAX_ROWID" by simp
  from nofull sint_le_MAX [of seq] have s_lt: "sint seq < MAX_ROWID"
    by (auto simp: rowids_exhausted_def)
  have lo: "- 9223372036854775808 \<le> max (?m + 1) (sint seq + 1)"
    using sint_ge_MIN [of seq] by simp
  have hi: "max (?m + 1) (sint seq + 1) \<le> MAX_ROWID"
    using m_lt s_lt by simp
  have "sint r = max (?m + 1) (sint seq + 1)"
    unfolding r using lo hi by (rule sint_in_range)
  moreover have "sint r \<le> ?m"
    using mem by (intro Max_ge) auto
  ultimately show False by simp
qed

lemma id_eq_unique: "id_eq a s \<Longrightarrow> id_eq b s \<Longrightarrow> a = b"
  using id_eq_parseInt [of a s] id_eq_parseInt [of b s] by simp

lemma find_unique:
  assumes "distinct (map ID xs)" "r \<in> set xs" "id_eq (ID r) s"
  shows "find (\<lambda>r. id_eq (ID r) s) xs = Some r"
proof -
  from assms(2,3) obtain r' where f: "find (\<lambda>r. id_eq (ID r) s) xs = Some r'"
    by (cases "find (\<lambda>r. id_eq (ID r) s) xs") (auto simp: find_None_iff)
  then have r': "r' \<in> set xs" "id_eq (ID r') s" by (auto dest: find_Some_mem)
  with assms(3) have "ID r = ID r'" by (auto intro: id_eq_unique)
  with assms(1,2) r'(1) have "r = r'" by (auto simp: distinct_map dest: inj_onD)
  with f show ?thesis by simp
qed

lemma map_ID_update:
  "map ID (map (\<lambda>r. if P r then r\<lparr>Title := a, Content := b, LastModified := c\<rparr> else r) xs) =
     map ID xs"
  "map ID (map (\<lambda>r. if P r then r\<lparr>LastModified := c\<rparr> else r) xs) = map ID xs"
  by (induction xs) auto

lemma reads_keep_store:
  "snd (getAllNotes zone db sortParam) = db" "snd (getNote db idv) = db"
  "snd (getLines zone db idv) = db" "snd (searchNotes zone db q) = db"
  by (auto simp: getAllNotes_def select_notes_def getNote_def select_note_def getLines_def
      select_lines_def searchNotes_def search_notes_def split: option.splits)

section \<open>What the handlers compute on a body that decodes\<close>

lemma createNote_decoded:
  assumes "\<not> rowids_exhausted (map ID (notes_table db)) (notes_seq db)"
  shows "\<exists>rowid. NewRowid (map ID (notes_table db)) (notes_seq db) = Inr rowid \<and>
     createNote now db (Some j) =
       (\<lparr>status = 201,
         payload = JNote \<lparr>ID = rowid,
            Title = (if or_else (j_title j) [] = [] then ''Untitled Diary''
                     else or_else (j_title j) []),
            Content = or_else (j_content j) [], CreatedAt = now, LastModified = now\<rparr>\<rparr>,
        db\<lparr>notes_table := notes_table db @
             [\<lparr>ID = rowid,
               Title = (if or_else (j_title j) [] = [] then ''Untitled Diary''
                        else or_else (j_title j) []),
               Content = or_else (j_content j) [], CreatedAt = now, LastModified = now\<rparr>],
           notes_seq := rowid\<rparr>)"
  using assms
  by (simp add: createNote_def Decode_Note_def zero_Note_def insert_note_def NewRowid_def
      LastInsertId_def respond_defs status_defs Let_def)

lemma updateNote_decoded:
  "updateNote now db idv (Some j) =
     (\<lparr>status = 200,
       payload = JNote \<lparr>ID = parseInt idv, Title = or_else (j_title j) [],
                        Content = or_else (j_content j) [],
                        CreatedAt = or_else (j_created_at j) zero_time, LastModified = now\<rparr>\<rparr>,
      db\<lparr>notes_table :=
           map (\<lambda>r. if id_eq (ID r) idv
                    then r\<lparr>Title := or_else (j_title j) [], Content := or_else (j_content j) [],
                           LastModified := now\<rparr>
                    else r) (notes_table db)\<rparr>)"
  by (simp add: updateNote_def Decode_Note_def zero_Note_def update_note_def respond_defs
      status_defs Let_def)

lemma addLine_decoded:
  assumes "\<not> rowids_exhausted (map LineID (lines_table db)) (lines_seq db)"
    and "\<not> (foreign_keys db \<and> parseInt N \<notin> set (map ID (notes_table db)))"
  shows "\<exists>rowid. NewRowid (map LineID (lines_table db)) (lines_seq db) = Inr rowid \<and>
     addLine now db N (Some j) =
       (\<lparr>status = 201,
         payload = JLine \<lparr>LineID = rowid, NoteID = parseInt N,
            LineContent = or_else (j_line_content j) [], Timestamp = now\<rparr>\<rparr>,
        db\<lparr>lines_table := lines_table db @
             [\<lparr>LineID = rowid, NoteID = parseInt N,
               LineContent = or_else (j_line_content j) [], Timestamp = now\<rparr>],
           lines_seq := rowid,
           notes_table := map (\<lambda>r. if id_eq (ID r) N then r\<lparr>LastModified := now\<rparr> else r)
             (notes_table db)\<rparr>)"
  using assms
  by (simp add: addLine_def Decode_Line_def zero_Line_def insert_line_def NewRowid_def
      update_last_modified_def LastInsertId_def respond_defs status_defs Let_def)

section \<open>Appending a line (C1)\<close>

text \<open>
  Claim C1. When a line is appended to a note \<open>N\<close> that the store holds, with a body
  that decodes and a \<open>lines\<close> table whose rowids are not exhausted, \<open>addLine\<close> answers
  201 with the line it stored: the line's \<open>note_id\<close> is \<open>N\<close>, its timestamp is the time
  the server read, its content is the body's, it is the new last row of \<open>lines\<close>, and
  the \<open>last_modified\<close> of the note with id \<open>N\<close> is set to exactly the line's timestamp,
  every other note being left as it was.
\<close>

theorem addLine_stamps_line_and_parent:
  assumes "\<exists>r \<in> set (notes_table db). id_eq (ID r) N"
    and "\<not> rowids_exhausted (map LineID (lines_table db)) (lines_seq db)"
  shows "\<exists>l db'. addLine now db N (Some j) = (\<lparr>status = 201, payload = JLine l\<rparr>, db') \<and>
         id_eq (NoteID l) N \<and> Timestamp l = now \<and>
         LineContent l = or_else (j_line_content j) [] \<and>
         lines_table db' = lines_table db @ [l] \<and>
         notes_table db' =
           map (\<lambda>r. if id_eq (ID r) N then r\<lparr>LastModified := Timestamp l\<rparr> else r)
             (notes_table db) \<and>
         (\<exists>r \<in> set (notes_table db'). id_eq (ID r) N \<and> LastModified r = Timestamp l)"
proof -
  from assms(1) obtain r where r: "r \<in> set (notes_table db)" "id_eq (ID r) N" by blast
  then have p: "parseInt N = ID r" by (simp add: id_eq_parseInt)
  with r have fk: "\<not> (foreign_keys db \<and> parseInt N \<notin> set (map ID (notes_table db)))"
    by auto
  from addLine_decoded [OF assms(2) fk, of now j] obtain rowid where
    eq: "addLine now db N (Some j) =
       (\<lparr>status = 201,
         payload = JLine \<lparr>LineID = rowid, NoteID = parseInt N,
            LineContent = or_else (j_line_content j) [], Timestamp = now\<rparr>\<rparr>,
        db\<lparr>lines_table := lines_table db @
             [\<lparr>LineID = rowid, NoteID = parseInt N,
               LineContent = or_else (j_line_content j) [], Timestamp = now\<rparr>],
           lines_seq := rowid,
           notes_table := map (\<lambda>r. if id_eq (ID r) N then r\<lparr>LastModified := now\<rparr> else r)
             (notes_table db)\<rparr>)"
    by blast
  define l where "l = \<lparr>LineID = rowid, NoteID = parseInt N,
      LineContent = or_else (j_line_content j) [], Timestamp = now\<rparr>"
  define db' where "db' = db\<lparr>lines_table := lines_table db @ [l], lines_seq := rowid,
      notes_table := map (\<lambda>r. if id_eq (ID r) N then r\<lparr>LastModified := now\<rparr> else r)
        (notes_table db)\<rparr>"
  have 1: "addLine now db N (Some j) = (\<lparr>status = 201, payload = JLine l\<rparr>, db')"
    using eq by (simp add: l_def db'_def)
  have 2: "id_eq (NoteID l) N"
    using r p by (simp add: l_def)
  have 3: "Timestamp l = now" "LineContent l = or_else (j_line_content j) []"
    by (simp_all add: l_def)
  have 4: "lines_table db' = lines_table db @ [l]"
    by (simp add: db'_def)
  have 5: "notes_table db' =
      map (\<lambda>r. if id_eq (ID r) N then r\<lparr>LastModified := Timestamp l\<rparr> else r) (notes_table db)"
    by (simp add: db'_def 3)
  have "r\<lparr>LastModified := now\<rparr> \<in> set (notes_table db')"
    unfolding 5 3 using r by force
  then have 6: "\<exists>r \<in> set (notes_table db'). id_eq (ID r) N \<and> LastModified r = Timestamp l"
    using r 3 by (intro bexI [of _ "r\<lparr>LastModified := now\<rparr>"]) simp_all
  from 1 2 3 4 5 6 show ?thesis by blast
qed

text \<open>
  The theorem at the example store: \<open>POST /api/notes/1/lines {"content":"hi"}\<close> at time 20.
\<close>

theorem addLine_stamps_line_and_parent_witness:
  "(\<exists>r \<in> set (notes_table example_db). id_eq (ID r) 1) \<and>
   \<not> rowids_exhausted (map LineID (lines_table example_db)) (lines_seq example_db) \<and>
   (\<exists>l db'. addLine 20 example_db 1 (Some example_line_body) =
        (\<lparr>status = 201, payload = JLine l\<rparr>, db') \<and>
      id_eq (NoteID l) 1 \<and> Timestamp l = 20 \<and> LineContent l = ''hi'' \<and>
      lines_table db' = [l] \<and>
      notes_table db' = [\<lparr>ID = 1, Title = ''X'', Content = ''Y'', CreatedAt = 10,
        LastModified = 20\<rparr>])"
proof -
  have h1: "\<exists>r \<in> set (notes_table example_db). id_eq (ID r) 1"
    by (simp add: example_db_def id_eq_def)
  have h2: "\<not> rowids_exhausted (map LineID (lines_table example_db)) (lines_seq example_db)"
    by (simp add: example_db_def rowids_exhausted_def MAX_ROWID_def)
  from addLine_stamps_line_and_parent [OF h1 h2, of 20 example_line_body] obtain l db' where
    "addLine 20 example_db 1 (Some example_line_body) =
        (\<lparr>status = 201, payload = JLine l\<rparr>, db')"
    "id_eq (NoteID l) 1" "Timestamp l = 20"
    "LineContent l = or_else (j_line_content example_line_body) []"
    "lines_table db' = lines_table example_db @ [l]"
    "notes_table db' =
           map (\<lambda>r. if id_eq (ID r) 1 then r\<lparr>LastModified := Timestamp l\<rparr> else r)
             (notes_table example_db)"
    by blast
  then show ?thesis
    using h1 h2
    by (intro conjI exI [of _ l] exI [of _ db'])
       (simp_all add: example_db_def example_line_body_def or_else_def id_eq_def)
qed

section \<open>Creating a note (C2)\<close>

text \<open>
  Claim C2. On a body that decodes, with a \<open>notes\<close> table whose rowids are not exhausted,
  \<open>createNote\<close> answers 201 with a note whose \<open>created_at\<close> equals its
  \<open>last_modified\<close> (both the time the server read), whose title is not empty (the
  body's title when that is not empty, \<open>Untitled Diary\<close> otherwise), whose content is the
  body's, and whose id is the one the store assigned: the note is the row appended to
  \<open>notes\<close>, under an id no earlier row has.
\<close>

theorem createNote_returns_stored_note:
  assumes "\<not> rowids_exhausted (map ID (notes_table db)) (notes_seq db)"
  shows "\<exists>n. createNote now db (Some j) =
           (\<lparr>status = 201, payload = JNote n\<rparr>,
            db\<lparr>notes_table := notes_table db @ [n], notes_seq := ID n\<rparr>) \<and>
         CreatedAt n = LastModified n \<and> CreatedAt n = now \<and>
         Title n \<noteq> [] \<and>
         Title n = (if or_else (j_title j) [] = [] then ''Untitled Diary''
                    else or_else (j_title j) []) \<and>
         Content n = or_else (j_content j) [] \<and>
         ID n \<notin> set (map ID (notes_table db))"
proof -
  from createNote_decoded [OF assms, of now j] obtain rowid where
    new: "NewRowid (map ID (notes_table db)) (notes_seq db) = Inr rowid" and
    eq: "createNote now db (Some j) =
       (\<lparr>status = 201,
         payload = JNote \<lparr>ID = rowid,
            Title = (if or_else (j_title j) [] = [] then ''Untitled Diary''
                     else or_else (j_title j) []),
            Content = or_else (j_content j) [], CreatedAt = now, LastModified = now\<rparr>\<rparr>,
        db\<lparr>notes_table := notes_table db @
             [\<lparr>ID = rowid,
               Title = (if or_else (j_title j) [] = [] then ''Untitled Diary''
                        else or_else (j_title j) []),
               Content = or_else (j_content j) [], CreatedAt = now, LastModified = now\<rparr>],
           notes_seq := rowid\<rparr>)"
    by blast
  from NewRowid_fresh [OF new] have "rowid \<notin> set (map ID (notes_table db))" .
  with eq show ?thesis by simp
qed

text \<open>
  The theorem at the example store and the body \<open>{"title":"X","content":"Y"}\<close>, at time 40.
\<close>

theorem createNote_returns_stored_note_witness:
  "\<not> rowids_exhausted (map ID (notes_table example_db)) (notes_seq example_db) \<and>
   (\<exists>n. createNote 40 example_db (Some example_body) =
           (\<lparr>status = 201, payload = JNote n\<rparr>,
            example_db\<lparr>notes_table := notes_table example_db @ [n], notes_seq := ID n\<rparr>) \<and>
         CreatedAt n = LastModified n \<and> CreatedAt n = 40 \<and>
         Title n = ''X'' \<and> ID n \<notin> set (map ID (notes_table example_db)))"
proof -
  have h: "\<not> rowids_exhausted (map ID (notes_table example_db)) (notes_seq example_db)"
    by (simp add: example_db_def rowids_exhausted_def MAX_ROWID_def)
  from createNote_returns_stored_note [OF h, of 40 example_body] show ?thesis
    using h by (auto simp: example_body_def or_else_def)
qed

section \<open>Updating a note (C5, C10)\<close>

text \<open>
  Claim C5. On a body that decodes, \<open>updateNote\<close> answers 200 and leaves the store with
  the title and content of every note of that id overwritten by the body's (the empty
  string for a field the body does not carry) and its \<open>last_modified\<close> set to the time
  the server read; nothing else changes, and when no note has the id the store is left
  exactly as it was, still with the answer 200.
\<close>

theorem updateNote_overwrites_unconditionally:
  "status (fst (updateNote now db idv (Some j))) = 200 \<and>
   snd (updateNote now db idv (Some j)) =
     db\<lparr>notes_table :=
          map (\<lambda>r. if id_eq (ID r) idv
                   then r\<lparr>Title := or_else (j_title j) [], Content := or_else (j_content j) [],
                          LastModified := now\<rparr>
                   else r) (notes_table db)\<rparr> \<and>
   (\<not> (\<exists>r \<in> set (notes_table db). id_eq (ID r) idv) \<longrightarrow>
      snd (updateNote now db idv (Some j)) = db)"
  by (simp add: updateNote_decoded map_no_match)

text \<open>
  The theorem at the example store, which has no note 2: \<open>PUT /api/notes/2\<close>.
\<close>

theorem updateNote_overwrites_unconditionally_witness:
  "\<not> (\<exists>r \<in> set (notes_table example_db). id_eq (ID r) 2) \<and>
   snd (updateNote 30 example_db 2 (Some example_body)) = example_db"
  using updateNote_overwrites_unconditionally [of 30 example_db 2 example_body]
  by (simp add: example_db_def id_eq_def)

text \<open>
  Claim C10, as the code has it. The note in the 200 response of \<open>updateNote\<close> is built
  from the decoded body and never read back from the store: its title and content are the
  body's, its \<open>last_modified\<close> is the time the server read, its id is \<open>parseInt\<close> of the
  path parameter, and its \<open>created_at\<close> is the one the body carries, the zero time when
  the body carries none. The store does not occur on the right-hand side: the response is
  the same whether or not a note of that id exists.
\<close>

theorem updateNote_response_from_body: 
  "fst (updateNote now db idv (Some j)) =
     \<lparr>status = 200,
       payload = JNote \<lparr>ID = parseInt idv, Title = or_else (j_title j) [],
                        Content = or_else (j_content j) [],
                        CreatedAt = or_else (j_created_at j) zero_time, LastModified = now\<rparr>\<rparr>"
  by (simp add: updateNote_decoded)

text \<open>
  Claim C10 as stated says that \<open>created_at\<close> of the response is the zero time. The
  struct the body is decoded into has a \<open>created_at\<close> field, which the handler never
  resets: for \<open>PUT /api/notes/1\<close> with a body that carries \<open>created_at\<close> = 5 the
  response has \<open>created_at\<close> = 5.
\<close>

theorem updateNote_created_at_counterexample:
  "payload (fst (updateNote 9 (Initialize False) 1
      (Some \<lparr>j_id = None, j_title = Some ''t'', j_content = Some ''c'', j_created_at = Some 5,
              j_last_modified = None\<rparr>))) =
     JNote \<lparr>ID = 1, Title = ''t'', Content = ''c'', CreatedAt = 5, LastModified = 9\<rparr>
   \<and> (5 :: timestamp) \<noteq> zero_time"
  by (simp add: updateNote_decoded or_else_def parseInt_def MAX_ROWID_def zero_time_def)

section \<open>Reading a note (C6)\<close>

text \<open>
  Claim C6. \<open>getNote\<close> answers 404 exactly when no note of the store has the id;
  when one has, it answers 200 with a note of the store that has this id, which is the
  stored note of that id, ids being unique (the primary key); in both cases the store is
  left as it was.
\<close>

theorem getNote_404_iff_absent:
  "(status (fst (getNote db idv)) = 404) = (\<not> (\<exists>r \<in> set (notes_table db). id_eq (ID r) idv)) \<and>
   ((\<exists>r \<in> set (notes_table db). id_eq (ID r) idv) \<longrightarrow>
      (\<exists>r \<in> set (notes_table db). id_eq (ID r) idv \<and>
         fst (getNote db idv) = \<lparr>status = 200, payload = JNote r\<rparr>)) \<and>
   (distinct (map ID (notes_table db)) \<longrightarrow>
      (\<forall>r \<in> set (notes_table db). id_eq (ID r) idv \<longrightarrow>
         fst (getNote db idv) = \<lparr>status = 200, payload = JNote r\<rparr>)) \<and>
   snd (getNote db idv) = db"
proof -
  have 1: "(status (fst (getNote db idv)) = 404) =
      (\<not> (\<exists>r \<in> set (notes_table db). id_eq (ID r) idv))"
    by (auto simp: getNote_def select_note_def respond_defs status_defs find_None_iff
        split: option.splits dest: find_Some_mem)
  have 2: "(\<exists>r \<in> set (notes_table db). id_eq (ID r) idv) \<longrightarrow>
      (\<exists>r \<in> set (notes_table db). id_eq (ID r) idv \<and>
         fst (getNote db idv) = \<lparr>status = 200, payload = JNote r\<rparr>)"
    by (auto simp: getNote_def select_note_def respond_defs status_defs find_None_iff
        split: option.splits dest: find_Some_mem)
  have 3: "distinct (map ID (notes_table db)) \<longrightarrow>
      (\<forall>r \<in> set (notes_table db). id_eq (ID r) idv \<longrightarrow>
         fst (getNote db idv) = \<lparr>status = 200, payload = JNote r\<rparr>)"
    by (auto simp: getNote_def select_note_def respond_defs status_defs find_unique)
  have 4: "snd (getNote db idv) = db"
    by (simp add: reads_keep_store)
  from 1 2 3 4 show ?thesis by blast
qed

text \<open>
  The theorem at the example store: \<open>GET /api/notes/1\<close>.
\<close>

theorem getNote_404_iff_absent_witness:
  "(\<exists>r \<in> set (notes_table example_db). id_eq (ID r) 1) \<and>
   distinct (map ID (notes_table example_db)) \<and>
   fst (getNote example_db 1) =
     \<lparr>status = 200, payload = JNote \<lparr>ID = 1, Title = ''X'', Content = ''Y'', CreatedAt = 10,
        LastModified = 10\<rparr>\<rparr>"
  using getNote_404_iff_absent [of example_db 1]
  by (simp add: example_db_def id_eq_def)

text \<open>The ids of the notes of a store the server reaches are unique.\<close>

lemma createNote_distinct:
  assumes "distinct (map ID (notes_table db))"
  shows "distinct (map ID (notes_table (snd (createNote now db body))))"
proof (cases "NewRowid (map ID (notes_table db)) (notes_seq db)")
  case (Inl e)
  with assms show ?thesis
    by (simp add: createNote_def Decode_Note_def insert_note_def Let_def split: option.splits)
next
  case (Inr rowid)
  from NewRowid_fresh [OF Inr] assms Inr show ?thesis
    by (simp add: createNote_def Decode_Note_def insert_note_def LastInsertId_def Let_def
        split: option.splits)
qed

lemma route_distinct:
  "distinct (map ID (notes_table db)) \<Longrightarrow> distinct (map ID (notes_table (snd (route zone now db req))))"
  by (cases req)
     (auto simp: reads_keep_store createNote_distinct updateNote_def Decode_Note_def
        update_note_def deleteNote_def delete_note_def addLine_def Decode_Line_def
        insert_line_def update_last_modified_def LastInsertId_def Let_def map_ID_update
        distinct_map_filter
        simp del: map_map split: option.splits sum.splits)

lemma reachable_distinct: "reachable_sequentially t db \<Longrightarrow> distinct (map ID (notes_table db))"
proof (induction rule: reachable_sequentially.induct)
  case (start t fk)
  show ?case by (simp add: Initialize_def)
next
  case (serve t db now req)
  then show ?case by (simp add: route_distinct)
qed

section \<open>Listing notes (C8)\<close>

text \<open>
  Claim C8, as the code has it. On a store whose notes had all their timestamps written
  under one zone offset, \<open>getAllNotes\<close> answers 200 with all the notes of the store (the
  same rows, as a multiset), in descending order of \<open>created_at\<close> when \<open>sort\<close> is
  \<open>creation_date\<close>, and in descending order of \<open>last_modified\<close> when \<open>sort\<close> is
  missing, empty or \<open>last_modified\<close>; the store is left as it was.
\<close>

theorem getAllNotes_sorted_descending:
  assumes "\<forall>n \<in> set (notes_table db). zone (CreatedAt n) = z \<and> zone (LastModified n) = z"
  shows
  "(\<exists>ns. getAllNotes zone db ''creation_date'' = (\<lparr>status = 200, payload = JNotes ns\<rparr>, db) \<and>
         mset ns = mset (notes_table db) \<and>
         sorted_wrt (\<lambda>a b. CreatedAt b \<le> CreatedAt a) ns) \<and>
   (\<exists>ns. getAllNotes zone db [] = (\<lparr>status = 200, payload = JNotes ns\<rparr>, db) \<and>
         mset ns = mset (notes_table db) \<and>
         sorted_wrt (\<lambda>a b. LastModified b \<le> LastModified a) ns) \<and>
   (\<exists>ns. getAllNotes zone db ''last_modified'' = (\<lparr>status = 200, payload = JNotes ns\<rparr>, db) \<and>
         mset ns = mset (notes_table db) \<and>
         sorted_wrt (\<lambda>a b. LastModified b \<le> LastModified a) ns)"
proof -
  from assms have c: "\<forall>n \<in> set (notes_table db). zone (CreatedAt n) = z"
    and m: "\<forall>n \<in> set (notes_table db). zone (LastModified n) = z" by simp_all
  show ?thesis
    by (simp add: getAllNotes_def select_notes_def respond_defs status_defs
        order_by_desc_mset order_by_desc_sorted [OF c] order_by_desc_sorted [OF m])
qed

text \<open>
  The theorem at the store with two notes, on a server that runs in UTC.
\<close>

theorem getAllNotes_sorted_descending_witness:
  "notes_table two_notes_db =
     [\<lparr>ID = 1, Title = ''X'', Content = ''Y'', CreatedAt = 5000000000,
       LastModified = 5000000000\<rparr>,
      \<lparr>ID = 2, Title = ''X'', Content = ''Y'', CreatedAt = 6000000000,
       LastModified = 6000000000\<rparr>] \<and>
   utc 5000000000 = 0 \<and> utc 6000000000 = 0 \<and>
   (\<exists>ns. getAllNotes utc two_notes_db ''creation_date'' =
        (\<lparr>status = 200, payload = JNotes ns\<rparr>, two_notes_db) \<and>
      mset ns = mset (notes_table two_notes_db) \<and>
      sorted_wrt (\<lambda>a b. CreatedAt b \<le> CreatedAt a) ns)"
proof -
  have h: "\<forall>n \<in> set (notes_table two_notes_db). utc (CreatedAt n) = 0 \<and> utc (LastModified n) = 0"
    by (simp add: utc_def)
  have t: "notes_table two_notes_db =
     [\<lparr>ID = 1, Title = ''X'', Content = ''Y'', CreatedAt = 5000000000,
       LastModified = 5000000000\<rparr>,
      \<lparr>ID = 2, Title = ''X'', Content = ''Y'', CreatedAt = 6000000000,
       LastModified = 6000000000\<rparr>]"
    by (simp add: two_notes_db_def)
  have u: "utc 5000000000 = 0" "utc 6000000000 = 0" by (simp_all add: utc_def)
  from getAllNotes_sorted_descending [OF h] t u show ?thesis by blast
qed

text \<open>
  The store with two notes is one the server reaches, by creating the notes at 5 and at 6
  seconds.
\<close>

lemma two_notes_reachable: "reachable_sequentially 6000000000 two_notes_db"
proof -
  have a: "snd (route zone 5000000000 (Initialize False) (POST_notes (Some example_body))) =
      \<lparr>notes_table = [\<lparr>ID = 1, Title = ''X'', Content = ''Y'', CreatedAt = 5000000000,
          LastModified = 5000000000\<rparr>],
       lines_table = [], notes_seq = 1, lines_seq = 0, foreign_keys = False\<rparr>" for zone
    by (simp add: createNote_def Decode_Note_def zero_Note_def or_else_def insert_note_def
      NewRowid_def rowids_exhausted_def MAX_ROWID_def LastInsertId_def respondWithJSON_def
      StatusCreated_def Initialize_def example_body_def Let_def)
  have b: "snd (route zone 6000000000
       \<lparr>notes_table = [\<lparr>ID = 1, Title = ''X'', Content = ''Y'', CreatedAt = 5000000000,
          LastModified = 5000000000\<rparr>],
       lines_table = [], notes_seq = 1, lines_seq = 0, foreign_keys = False\<rparr>
       (POST_notes (Some example_body))) = two_notes_db" for zone
    by (simp add: createNote_def Decode_Note_def zero_Note_def or_else_def insert_note_def
      NewRowid_def rowids_exhausted_def MAX_ROWID_def LastInsertId_def respondWithJSON_def
      StatusCreated_def example_body_def two_notes_db_def Let_def)
  have "reachable_sequentially 5000000000
      (snd (route utc 5000000000 (Initialize False) (POST_notes (Some example_body))))"
    by (rule reachable_sequentially.serve [OF reachable_sequentially.start [of 0 False]]) simp
  then have "reachable_sequentially 6000000000
      (snd (route utc 6000000000
         (snd (route utc 5000000000 (Initialize False) (POST_notes (Some example_body))))
         (POST_notes (Some example_body))))"
    by (rule reachable_sequentially.serve) simp
  then show ?thesis by (simp only: a b)
qed

text \<open>
  Claim C8 as stated says that the list is in descending order of \<open>created_at\<close>. When
  the offset of the server's zone changes between the two creations (here from 0 to one
  hour west), the text stored for the later note is the smaller one, and the note
  created first is listed first.
\<close>

theorem getAllNotes_zone_counterexample:
  "reachable_sequentially 6000000000 two_notes_db \<and>
   getAllNotes zone_change two_notes_db ''creation_date'' =
     (\<lparr>status = 200, payload = JNotes
        [\<lparr>ID = 1, Title = ''X'', Content = ''Y'', CreatedAt = 5000000000,
          LastModified = 5000000000\<rparr>,
         \<lparr>ID = 2, Title = ''X'', Content = ''Y'', CreatedAt = 6000000000,
          LastModified = 6000000000\<rparr>]\<rparr>, two_notes_db) \<and>
   CreatedAt \<lparr>ID = 1, Title = ''X'', Content = ''Y'', CreatedAt = 5000000000,
          LastModified = 5000000000\<rparr>
     < CreatedAt \<lparr>ID = 2, Title = ''X'', Content = ''Y'', CreatedAt = 6000000000,
          LastModified = 6000000000\<rparr>"
  using two_notes_reachable
  by (simp add: getAllNotes_def select_notes_def respond_defs status_defs order_by_desc_def
      stored_time_def zone_change_def two_notes_db_def)

section \<open>Bodies that do not decode (C9)\<close>

text \<open>
  Claim C9. When the body does not decode, \<open>createNote\<close>, \<open>updateNote\<close> and
  \<open>addLine\<close> answer 400 with the message \<open>Invalid request payload\<close>, and the store is
  left as it was: no statement runs.
\<close>

theorem decode_failure_400_store_unchanged: 
  "createNote now db None =
     (\<lparr>status = 400, payload = JMap [(''error'', ''Invalid request payload'')]\<rparr>, db)
   \<and> updateNote now db idv None =
     (\<lparr>status = 400, payload = JMap [(''error'', ''Invalid request payload'')]\<rparr>, db)
   \<and> addLine now db idv None =
     (\<lparr>status = 400, payload = JMap [(''error'', ''Invalid request payload'')]\<rparr>, db)"
  by (simp add: createNote_def updateNote_def addLine_def Decode_Note_def Decode_Line_def
      respond_defs status_defs)

section \<open>Timestamps of the stores the server reaches (C7)\<close>

lemma notes_inv_mono: "notes_inv t db \<Longrightarrow> t \<le> t' \<Longrightarrow> notes_inv t' db"
  by (auto simp: notes_inv_def list_all_iff)

lemma createNote_notes_inv:
  "notes_inv t db \<Longrightarrow> t \<le> now \<Longrightarrow> notes_inv now (snd (createNote now db body))"
  by (auto simp: createNote_def Decode_Note_def insert_note_def LastInsertId_def Let_def
      notes_inv_def list_all_iff split: option.splits sum.splits)

lemma updateNote_notes_inv:
  "notes_inv t db \<Longrightarrow> t \<le> now \<Longrightarrow> notes_inv now (snd (updateNote now db idv body))"
  by (auto simp: updateNote_def Decode_Note_def update_note_def Let_def
      notes_inv_def list_all_iff split: option.splits)

lemma deleteNote_notes_inv:
  "notes_inv t db \<Longrightarrow> t \<le> now \<Longrightarrow> notes_inv now (snd (deleteNote db idv))"
  by (auto simp: deleteNote_def delete_note_def notes_inv_def list_all_iff)

lemma addLine_notes_inv:
  "notes_inv t db \<Longrightarrow> t \<le> now \<Longrightarrow> notes_inv now (snd (addLine now db idv body))"
  by (auto simp: addLine_def Decode_Line_def insert_line_def update_last_modified_def
      LastInsertId_def Let_def notes_inv_def list_all_iff split: option.splits sum.splits)

lemma route_notes_inv:
  "notes_inv t db \<Longrightarrow> t \<le> now \<Longrightarrow> notes_inv now (snd (route zone now db req))"
  by (cases req)
     (simp_all add: reads_keep_store createNote_notes_inv updateNote_notes_inv
        deleteNote_notes_inv addLine_notes_inv notes_inv_mono [of t db now])

lemma reachable_notes_inv: "reachable_sequentially t db \<Longrightarrow> notes_inv t db"
proof (induction rule: reachable_sequentially.induct)
  case (start t fk)
  show ?case by (simp add: notes_inv_def Initialize_def)
next
  case (serve t db now req)
  then show ?case by (simp add: route_notes_inv)
qed

text \<open>
  Claim C7, as the code has it. With a monotonic clock, in every store that the server
  reaches from a new database while it serves its requests one at a time, every note has
  \<open>last_modified\<close> no earlier than \<open>created_at\<close>: \<open>createNote\<close> sets the two to the
  same time, and \<open>updateNote\<close> and \<open>addLine\<close> set \<open>last_modified\<close> to the time
  they read, which is no earlier than any time stored.
\<close>

theorem reachable_last_modified_ge_created_at:
  "reachable_sequentially t db \<Longrightarrow> n \<in> set (notes_table db) \<Longrightarrow> CreatedAt n \<le> LastModified n"
  using reachable_notes_inv [of t db] by (simp add: notes_inv_def list_all_iff)

lemma example_db_created:
  "route zone 10 (Initialize False) (POST_notes (Some example_body)) =
     (\<lparr>status = 201, payload = JNote \<lparr>ID = 1, Title = ''X'', Content = ''Y'', CreatedAt = 10,
        LastModified = 10\<rparr>\<rparr>, example_db)"
  by (simp add: createNote_def Decode_Note_def zero_Note_def or_else_def insert_note_def
      NewRowid_def rowids_exhausted_def MAX_ROWID_def LastInsertId_def respondWithJSON_def
      StatusCreated_def Initialize_def example_db_def example_body_def Let_def)

lemma reachable_example_db: "reachable_sequentially 10 example_db"
  using reachable_sequentially.serve [OF reachable_sequentially.start [of 0 False], of 10 zone "POST_notes (Some example_body)"]
  by (simp only: example_db_created snd_conv)

text \<open>
  The theorem at the example store, which the server reaches by creating a note at time 10.
\<close>

theorem reachable_last_modified_ge_created_at_witness:
  "reachable_sequentially 10 example_db \<and>
   \<lparr>ID = 1, Title = ''X'', Content = ''Y'', CreatedAt = 10, LastModified = 10\<rparr>
     \<in> set (notes_table example_db) \<and>
   CreatedAt \<lparr>ID = 1, Title = ''X'', Content = ''Y'', CreatedAt = 10, LastModified = 10\<rparr>
     \<le> LastModified \<lparr>ID = 1, Title = ''X'', Content = ''Y'', CreatedAt = 10,
           LastModified = 10\<rparr>"
proof -
  have m: "\<lparr>ID = 1, Title = ''X'', Content = ''Y'', CreatedAt = 10, LastModified = 10\<rparr>
     \<in> set (notes_table example_db)"
    by (simp add: example_db_def)
  from reachable_last_modified_ge_created_at [OF reachable_example_db m] reachable_example_db m show ?thesis by blast
qed

text \<open>
  Claim C7 as stated speaks of every reachable store. The handlers read \<open>time.Now()\<close>
  before their statement runs and are served concurrently: a \<open>PUT /api/notes/1\<close> reads
  the clock at 5, a \<open>POST /api/notes\<close> reads it at 6 and inserts note 1, and then the
  \<open>UPDATE\<close> of the first runs. The note is left with \<open>last_modified\<close> 5, earlier than
  its \<open>created_at\<close> 6, though the clock never went back.
\<close>

theorem concurrent_update_counterexample:
  "reachable_concurrently 0 7 stale_db \<and>
   \<lparr>ID = 1, Title = ''X'', Content = ''Y'', CreatedAt = 6, LastModified = 5\<rparr>
     \<in> set (notes_table stale_db) \<and>
   LastModified \<lparr>ID = 1, Title = ''X'', Content = ''Y'', CreatedAt = 6, LastModified = 5\<rparr>
     < CreatedAt \<lparr>ID = 1, Title = ''X'', Content = ''Y'', CreatedAt = 6, LastModified = 5\<rparr>"
proof -
  have a: "snd (route utc 6 (Initialize False) (POST_notes (Some example_body))) =
      \<lparr>notes_table = [\<lparr>ID = 1, Title = ''X'', Content = ''Y'', CreatedAt = 6,
          LastModified = 6\<rparr>],
       lines_table = [], notes_seq = 1, lines_seq = 0, foreign_keys = False\<rparr>"
    by (simp add: createNote_def Decode_Note_def zero_Note_def or_else_def insert_note_def
      NewRowid_def rowids_exhausted_def MAX_ROWID_def LastInsertId_def respondWithJSON_def
      StatusCreated_def Initialize_def example_body_def Let_def)
  have b: "snd (route utc 5
       \<lparr>notes_table = [\<lparr>ID = 1, Title = ''X'', Content = ''Y'', CreatedAt = 6,
          LastModified = 6\<rparr>],
       lines_table = [], notes_seq = 1, lines_seq = 0, foreign_keys = False\<rparr>
       (PUT_note 1 (Some example_body))) = stale_db"
    by (simp add: updateNote_decoded or_else_def id_eq_def example_body_def stale_db_def)
  have "reachable_concurrently 0 6
      (snd (route utc 6 (Initialize False) (POST_notes (Some example_body))))"
    by (rule reachable_concurrently.serve [OF reachable_concurrently.start]) simp_all
  then have "reachable_concurrently 0 7
      (snd (route utc 5 (snd (route utc 6 (Initialize False) (POST_notes (Some example_body))))
         (PUT_note 1 (Some example_body))))"
    by (rule reachable_concurrently.serve) simp_all
  then have "reachable_concurrently 0 7 stale_db" by (simp only: a b)
  then show ?thesis by (simp add: stale_db_def)
qed

text \<open>
  Every store reached by serving requests one at a time is reached by serving them
  concurrently.
\<close>

lemma sequential_is_concurrent:
  "reachable_sequentially t db \<Longrightarrow> \<exists>t0. t0 \<le> t \<and> reachable_concurrently t0 t db"
proof (induction rule: reachable_sequentially.induct)
  case (start t fk)
  have "reachable_concurrently t t (Initialize fk)" by (rule reachable_concurrently.start)
  then show ?case by blast
next
  case (serve t db now zone req)
  then obtain t0 where "t0 \<le> t" "reachable_concurrently t0 t db" by blast
  with serve.hyps(2) have "t0 \<le> now"
    "reachable_concurrently t0 now (snd (route zone now db req))"
    by (auto intro: reachable_concurrently.serve)
  then show ?case by blast
qed

section \<open>Lines and the notes they belong to (C3)\<close>

text \<open>
  On a connection that enforces foreign keys, every line of a reachable store belongs to
  a note of the store, and deleting a note leaves no line of it to list.
\<close>

lemma route_foreign_keys: "foreign_keys (snd (route zone now db req)) = foreign_keys db"
  by (cases req)
     (auto simp: reads_keep_store createNote_def Decode_Note_def insert_note_def
        LastInsertId_def updateNote_def update_note_def deleteNote_def delete_note_def
        addLine_def Decode_Line_def insert_line_def update_last_modified_def Let_def
        split: option.splits sum.splits)

lemma createNote_lines_inv: "lines_inv db \<Longrightarrow> lines_inv (snd (createNote now db body))"
  by (auto simp: createNote_def Decode_Note_def insert_note_def LastInsertId_def Let_def
      lines_inv_def list_all_iff split: option.splits sum.splits)

lemma updateNote_lines_inv: "lines_inv db \<Longrightarrow> lines_inv (snd (updateNote now db idv body))"
  by (auto simp: updateNote_def Decode_Note_def update_note_def Let_def map_ID_update
      lines_inv_def list_all_iff simp del: set_map map_map split: option.splits)

lemma addLine_lines_inv:
  "foreign_keys db \<Longrightarrow> lines_inv db \<Longrightarrow> lines_inv (snd (addLine now db idv body))"
  by (auto simp: addLine_def Decode_Line_def insert_line_def update_last_modified_def
      LastInsertId_def Let_def map_ID_update lines_inv_def list_all_iff
      simp del: set_map map_map split: option.splits sum.splits)

lemma deleteNote_lines_inv:
  assumes "foreign_keys db" "lines_inv db"
  shows "lines_inv (snd (deleteNote db idv))"
proof -
  have "NoteID l \<in> ID ` {r \<in> set (notes_table db). \<not> id_eq (ID r) idv}"
    if l: "l \<in> set (lines_table db)"
      and gone: "NoteID l \<notin> ID ` {r \<in> set (notes_table db). id_eq (ID r) idv}" for l
  proof -
    from assms(2) l obtain r where "r \<in> set (notes_table db)" "ID r = NoteID l"
      by (auto simp: lines_inv_def list_all_iff)
    with gone show ?thesis by force
  qed
  with assms(1) show ?thesis
    by (auto simp: deleteNote_def delete_note_def lines_inv_def list_all_iff)
qed

lemma route_lines_inv:
  "foreign_keys db \<Longrightarrow> lines_inv db \<Longrightarrow> lines_inv (snd (route zone now db req))"
  by (cases req)
     (simp_all add: reads_keep_store createNote_lines_inv updateNote_lines_inv
        deleteNote_lines_inv addLine_lines_inv)

lemma reachable_lines_inv: "reachable_sequentially t db \<Longrightarrow> foreign_keys db \<Longrightarrow> lines_inv db"
proof (induction rule: reachable_sequentially.induct)
  case (start t fk)
  show ?case by (simp add: lines_inv_def Initialize_def)
next
  case (serve t db now req)
  then show ?case by (simp add: route_foreign_keys route_lines_inv)
qed

lemma foreign_keys_on_lines_have_notes:
  "reachable_sequentially t db \<Longrightarrow> foreign_keys db \<Longrightarrow> l \<in> set (lines_table db) \<Longrightarrow>
     NoteID l \<in> set (map ID (notes_table db))"
  using reachable_lines_inv [of t db] by (simp add: lines_inv_def list_all_iff)

lemma foreign_keys_on_delete_cascades:
  assumes "reachable_sequentially t db" "foreign_keys db"
  shows "fst (getLines zone (snd (deleteNote db idv)) idv) = \<lparr>status = 200, payload = JLines []\<rparr>"
proof -
  have "NoteID l \<in> set (map ID (filter (\<lambda>r. id_eq (ID r) idv) (notes_table db)))"
    if l: "l \<in> set (lines_table db)" and m: "id_eq (NoteID l) idv" for l
  proof -
    from foreign_keys_on_lines_have_notes [OF assms l]
    obtain r where r: "r \<in> set (notes_table db)" "ID r = NoteID l" by auto
    with m have "id_eq (ID r) idv" by simp
    with r show ?thesis by force
  qed
  then have "filter (\<lambda>l. id_eq (NoteID l) idv)
          (filter (\<lambda>l. NoteID l \<notin> set (map ID (filter (\<lambda>r. id_eq (ID r) idv) (notes_table db))))
             (lines_table db)) = []"
    by (auto simp: filter_empty_conv simp del: set_map)
  with assms(2) show ?thesis
    by (simp add: getLines_def select_lines_def deleteNote_def delete_note_def order_by_asc_def
        respondWithJSON_def StatusOK_def)
qed

text \<open>
  Claim C3 says that every line of a reachable store refers to an existing note and that
  deleting a note removes its lines. The connection the program opens does not enforce
  foreign keys, and the handlers do nothing in their place. On a new database
  \<open>POST /api/notes/7/lines {"content":"hi"}\<close> answers 201 and stores a line of note 7,
  though there is no note 7; and after a line is appended to note 1 of the example store,
  \<open>DELETE /api/notes/1\<close> removes the note and keeps the line, which
  \<open>GET /api/notes/1/lines\<close> then still lists.
\<close>

theorem foreign_keys_off_lines_outlive_notes:
  "route zone 20 (Initialize False) (POST_lines 7 (Some example_line_body)) =
     (\<lparr>status = 201,
       payload = JLine \<lparr>LineID = 1, NoteID = 7, LineContent = ''hi'', Timestamp = 20\<rparr>\<rparr>,
      \<lparr>notes_table = [],
       lines_table = [\<lparr>LineID = 1, NoteID = 7, LineContent = ''hi'', Timestamp = 20\<rparr>],
       notes_seq = 0, lines_seq = 1, foreign_keys = False\<rparr>) \<and>
   reachable_sequentially 20 (snd (route zone 20 (Initialize False) (POST_lines 7 (Some example_line_body)))) \<and>
   snd (route zone 20 example_db (POST_lines 1 (Some example_line_body))) =
     \<lparr>notes_table = [\<lparr>ID = 1, Title = ''X'', Content = ''Y'', CreatedAt = 10,
        LastModified = 20\<rparr>],
      lines_table = [\<lparr>LineID = 1, NoteID = 1, LineContent = ''hi'', Timestamp = 20\<rparr>],
      notes_seq = 1, lines_seq = 1, foreign_keys = False\<rparr> \<and>
   route zone 30 (snd (route zone 20 example_db (POST_lines 1 (Some example_line_body)))) (DELETE_note 1) =
     (\<lparr>status = 200, payload = JMap [(''message'', ''Note deleted successfully'')]\<rparr>,
      \<lparr>notes_table = [],
       lines_table = [\<lparr>LineID = 1, NoteID = 1, LineContent = ''hi'', Timestamp = 20\<rparr>],
       notes_seq = 1, lines_seq = 1, foreign_keys = False\<rparr>) \<and>
   fst (route zone 40
         (snd (route zone 30 (snd (route zone 20 example_db (POST_lines 1 (Some example_line_body))))
            (DELETE_note 1)))
         (GET_lines 1)) =
     \<lparr>status = 200,
      payload = JLines [\<lparr>LineID = 1, NoteID = 1, LineContent = ''hi'', Timestamp = 20\<rparr>]\<rparr>"
proof -
  have a: "route zone 20 (Initialize False) (POST_lines 7 (Some example_line_body)) =
     (\<lparr>status = 201,
       payload = JLine \<lparr>LineID = 1, NoteID = 7, LineContent = ''hi'', Timestamp = 20\<rparr>\<rparr>,
      \<lparr>notes_table = [],
       lines_table = [\<lparr>LineID = 1, NoteID = 7, LineContent = ''hi'', Timestamp = 20\<rparr>],
       notes_seq = 0, lines_seq = 1, foreign_keys = False\<rparr>)"
    by (simp add: addLine_def Decode_Line_def zero_Line_def or_else_def insert_line_def
        NewRowid_def rowids_exhausted_def MAX_ROWID_def LastInsertId_def
        update_last_modified_def parseInt_def respondWithJSON_def StatusCreated_def
        Initialize_def example_line_body_def Let_def)
  have b: "reachable_sequentially 20 (snd (route zone 20 (Initialize False) (POST_lines 7 (Some example_line_body))))"
    by (rule reachable_sequentially.serve [OF reachable_sequentially.start, of 0]) simp
  have c: "snd (route zone 20 example_db (POST_lines 1 (Some example_line_body))) =
     \<lparr>notes_table = [\<lparr>ID = 1, Title = ''X'', Content = ''Y'', CreatedAt = 10,
        LastModified = 20\<rparr>],
      lines_table = [\<lparr>LineID = 1, NoteID = 1, LineContent = ''hi'', Timestamp = 20\<rparr>],
      notes_seq = 1, lines_seq = 1, foreign_keys = False\<rparr>"
    by (simp add: addLine_def Decode_Line_def zero_Line_def or_else_def insert_line_def
        NewRowid_def rowids_exhausted_def MAX_ROWID_def LastInsertId_def
        update_last_modified_def parseInt_def id_eq_def
        example_db_def example_line_body_def Let_def)
  have d: "route zone 30 \<lparr>notes_table = [\<lparr>ID = 1, Title = ''X'', Content = ''Y'', CreatedAt = 10,
        LastModified = 20\<rparr>],
      lines_table = [\<lparr>LineID = 1, NoteID = 1, LineContent = ''hi'', Timestamp = 20\<rparr>],
      notes_seq = 1, lines_seq = 1, foreign_keys = False\<rparr> (DELETE_note 1) =
     (\<lparr>status = 200, payload = JMap [(''message'', ''Note deleted successfully'')]\<rparr>,
      \<lparr>notes_table = [],
       lines_table = [\<lparr>LineID = 1, NoteID = 1, LineContent = ''hi'', Timestamp = 20\<rparr>],
       notes_seq = 1, lines_seq = 1, foreign_keys = False\<rparr>)"
    by (simp add: deleteNote_def delete_note_def id_eq_def respondWithJSON_def StatusOK_def)
  have e: "fst (route zone 40 \<lparr>notes_table = [],
       lines_table = [\<lparr>LineID = 1, NoteID = 1, LineContent = ''hi'', Timestamp = 20\<rparr>],
       notes_seq = 1, lines_seq = 1, foreign_keys = False\<rparr> (GET_lines 1)) =
     \<lparr>status = 200,
      payload = JLines [\<lparr>LineID = 1, NoteID = 1, LineContent = ''hi'', Timestamp = 20\<rparr>]\<rparr>"
    by (simp add: getLines_def select_lines_def order_by_asc_def id_eq_def respondWithJSON_def
        StatusOK_def)
  show ?thesis
    unfolding c d snd_conv using a b e by (simp only: c d snd_conv simp_thms)
qed

section \<open>Searching (C4)\<close>




















end
